theory Spec2Isabelle
  imports Main "HOL-Library.Word"
begin

section \<open>Media definitions of erizo: packets, sinks, sources, feedback\<close>

text \<open>
  A shallow embedding of \<^verbatim>\<open>erizo/src/erizo/MediaDefinitions.h\<close>.

  \<^item> Every class is a record, every member function a HOL function that takes the object
    and returns the value together with the object after the call.
  \<^item> \<^verbatim>\<open>uint32_t\<close> is \<open>32 word\<close>, \<^verbatim>\<open>uint64_t\<close> is \<open>64 word\<close>, \<^verbatim>\<open>int\<close> is \<open>32 word\<close> read by \<open>sint\<close>,
    \<^verbatim>\<open>char\<close> is \<open>8 word\<close>.
  \<^item> A pointer to another object is an optional address, \<open>None\<close> being \<^verbatim>\<open>nullptr\<close>.
  \<^item> Behaviour the C++ standard leaves undefined (indexing an empty vector, a
    \<^verbatim>\<open>memcpy\<close> beyond either buffer) and locking a mutex that is already held
    are faults, returned as \<open>Inl\<close>.
  \<^item> Besides its value, a member function returns the sequence of synchronisation and
    field-access events it performed, in program order, so that the locking discipline
    can be read off an execution.
  \<^item> The model is that of one thread of execution: a call runs from its entry to its
    return without another call in between.
\<close>

subsection \<open>Basic types\<close>

type_synonym u32 = "32 word"
type_synonym u64 = "64 word"
type_synonym cint = "32 word"
type_synonym byte = "8 word"
type_synonym addr = nat

datatype fault = UB | Blocked

text \<open>The member variables that the accessors of the three stateful classes touch.\<close>

datatype field =
    Audio_sink_ssrc | Video_sink_ssrc | Sink_fb_source
  | Audio_source_ssrc | Video_source_ssrc_list | Video_sink | Audio_sink | Source_fb_sink
  | Fb_sink

datatype event = Acquire | Release | Rd field | Wr field

type_synonym ('s, 'a) member = "'s \<Rightarrow> fault + ('a \<times> 's \<times> event list)"

definition rd :: "field \<Rightarrow> ('s \<Rightarrow> 'a) \<Rightarrow> ('s, 'a) member" where
  "rd f g s = Inr (g s, s, [Rd f])"

definition wr :: "field \<Rightarrow> ('s \<Rightarrow> 's) \<Rightarrow> ('s, unit) member" where
  "wr f u s = Inr ((), u s, [Wr f])"

subsection \<open>Standard-library algorithms\<close>

text \<open>
  \<^verbatim>\<open>std::find_if(first, last, pred)\<close> walks the range and returns the iterator to the first
  element satisfying the predicate, or \<^verbatim>\<open>last\<close>. Iterators of a vector are positions:
  \<open>0\<close> is \<^verbatim>\<open>begin()\<close> and the length is \<^verbatim>\<open>end()\<close>.
\<close>

fun find_if :: "('a \<Rightarrow> bool) \<Rightarrow> 'a list \<Rightarrow> nat" where
  "find_if pred [] = 0"
| "find_if pred (x # xs) = (if pred x then 0 else Suc (find_if pred xs))"

definition find_std :: "'a list \<Rightarrow> 'a \<Rightarrow> nat" where
  "find_std xs v = find_if (\<lambda>x. x = v) xs"

definition end_it :: "'a list \<Rightarrow> nat" where
  "end_it xs = length xs"

text \<open>
  \<^verbatim>\<open>memcpy(dst, src, n)\<close> on a destination array whose bytes may still be indeterminate
  (\<open>None\<close>) and a source of readable bytes. Copying more than either side holds is
  undefined.
\<close>

definition memcpy :: "byte option list \<Rightarrow> byte list \<Rightarrow> nat \<Rightarrow> fault + byte option list" where
  "memcpy dst src n =
     (if n \<le> length dst \<and> n \<le> length src
      then Inr (map Some (take n src) @ drop n dst)
      else Inl UB)"

text \<open>
  The conversion of the \<^verbatim>\<open>int\<close> argument to \<^verbatim>\<open>size_t\<close> at the call of \<^verbatim>\<open>memcpy\<close>:
  a negative length wraps around to a huge unsigned value (64-bit \<^verbatim>\<open>size_t\<close>).
\<close>

definition size_t_of_int :: "cint \<Rightarrow> nat" where
  "size_t_of_int n = (if sint n < 0 then nat (2 ^ 64 + sint n) else nat (sint n))"

subsection \<open>dataPacket\<close>

datatype packetType = VIDEO_PACKET | AUDIO_PACKET | OTHER_PACKET

text \<open>
  The struct's \<^verbatim>\<open>char data[1500]\<close> is an array inside the packet, so the record holds
  the bytes themselves. The fields \<^verbatim>\<open>comp\<close>, \<^verbatim>\<open>data\<close>, \<^verbatim>\<open>length\<close> and \<^verbatim>\<open>type\<close> carry the
  suffix \<open>_pkt\<close>.
\<close>

record dataPacket =
  comp_pkt :: cint
  data_pkt :: "byte option list"
  length_pkt :: cint
  type_pkt :: packetType
  received_time_ms :: u64
  compatible_spatial_layers :: "cint list"
  compatible_temporal_layers :: "cint list"
  is_keyframe :: bool

definition capacity :: nat where
  "capacity = 1500"

text \<open>
  The member initialisers, before the constructor body runs: the array is not
  initialised and the two vectors are default-constructed, that is, empty.
\<close>

definition dataPacket_init :: "cint \<Rightarrow> cint \<Rightarrow> packetType \<Rightarrow> u64 \<Rightarrow> dataPacket" where
  "dataPacket_init comp_arg length_arg type_arg time_arg =
     \<lparr> comp_pkt = comp_arg,
       data_pkt = replicate capacity None,
       length_pkt = length_arg,
       type_pkt = type_arg,
       received_time_ms = time_arg,
       compatible_spatial_layers = [],
       compatible_temporal_layers = [],
       is_keyframe = False \<rparr>"

text \<open>The constructor body, shared by the three constructors: \<^verbatim>\<open>memcpy(data, data_, length_)\<close>.\<close>

definition dataPacket_body :: "byte list \<Rightarrow> cint \<Rightarrow> dataPacket \<Rightarrow> fault + dataPacket" where
  "dataPacket_body data_arg length_arg p =
     (case memcpy (data_pkt p) data_arg (size_t_of_int length_arg) of
        Inl e \<Rightarrow> Inl e
      | Inr d \<Rightarrow> Inr (p\<lparr>data_pkt := d\<rparr>))"

text \<open>\<^verbatim>\<open>dataPacket(int, const char*, int, packetType, uint64_t)\<close>\<close>

definition dataPacket_ctor_timed ::
  "cint \<Rightarrow> byte list \<Rightarrow> cint \<Rightarrow> packetType \<Rightarrow> u64 \<Rightarrow> fault + dataPacket" where
  "dataPacket_ctor_timed comp_arg data_arg length_arg type_arg received_time_ms_arg =
     dataPacket_body data_arg length_arg
       (dataPacket_init comp_arg length_arg type_arg received_time_ms_arg)"

text \<open>
  \<^verbatim>\<open>dataPacket(int, const char*, int, packetType)\<close>. The reading of the clock,
  \<^verbatim>\<open>ClockUtils::timePointToMs(clock::now())\<close>, is the parameter \<open>now_ms\<close>.
\<close>

definition dataPacket_ctor_typed ::
  "u64 \<Rightarrow> cint \<Rightarrow> byte list \<Rightarrow> cint \<Rightarrow> packetType \<Rightarrow> fault + dataPacket" where
  "dataPacket_ctor_typed now_ms comp_arg data_arg length_arg type_arg =
     dataPacket_body data_arg length_arg
       (dataPacket_init comp_arg length_arg type_arg now_ms)"

text \<open>\<^verbatim>\<open>dataPacket(int, const unsigned char*, int)\<close>\<close>

definition dataPacket_ctor_video ::
  "u64 \<Rightarrow> cint \<Rightarrow> byte list \<Rightarrow> cint \<Rightarrow> fault + dataPacket" where
  "dataPacket_ctor_video now_ms comp_arg data_arg length_arg =
     dataPacket_body data_arg length_arg
       (dataPacket_init comp_arg length_arg VIDEO_PACKET now_ms)"

text \<open>
  The two layer tests are non-const member functions: they return their answer and the
  packet as it is after the call.
\<close>

definition belongsToSpatialLayer :: "cint \<Rightarrow> dataPacket \<Rightarrow> bool \<times> dataPacket" where
  "belongsToSpatialLayer spatial_layer p =
     (let item = find_std (compatible_spatial_layers p) spatial_layer
      in (item \<noteq> end_it (compatible_spatial_layers p), p))"

definition belongsToTemporalLayer :: "cint \<Rightarrow> dataPacket \<Rightarrow> bool \<times> dataPacket" where
  "belongsToTemporalLayer temporal_layer p =
     (let item = find_std (compatible_temporal_layers p) temporal_layer
      in (item \<noteq> end_it (compatible_temporal_layers p), p))"

subsection \<open>Monitor\<close>

text \<open>The mutex is held (\<open>True\<close>) or free (\<open>False\<close>).\<close>

record Monitor =
  monitor_mutex :: bool

text \<open>
  \<^verbatim>\<open>boost::mutex::scoped_lock lock(monitor_mutex_)\<close> at the head of a member function:
  the mutex is taken, the rest of the function runs, and the destructor of the lock gives
  the mutex back when the function returns. \<^verbatim>\<open>boost::mutex\<close> is not recursive: taking
  it while it is held never returns.
\<close>

definition scoped_lock ::
  "('m Monitor_scheme, 'a) member \<Rightarrow> ('m Monitor_scheme, 'a) member" where
  "scoped_lock body s =
     (if monitor_mutex s then Inl Blocked
      else case body (s\<lparr>monitor_mutex := True\<rparr>) of
             Inl e \<Rightarrow> Inl e
           | Inr (a, s', es) \<Rightarrow> Inr (a, s'\<lparr>monitor_mutex := False\<rparr>, Acquire # es @ [Release]))"

subsection \<open>FeedbackSink and FeedbackSource\<close>

text \<open>
  A pure virtual member function is a parameter: the implementation that the concrete
  class supplies. It may do to the concrete object \<open>'s\<close> whatever it wants. The
  \<^verbatim>\<open>std::shared_ptr<dataPacket>\<close> argument is a value of type \<open>'p\<close>.
\<close>

record ('s, 'p) FeedbackSink_vtable =
  deliverFeedback_impl :: "'p \<Rightarrow> ('s, cint) member"

definition deliverFeedback :: "('s, 'p) FeedbackSink_vtable \<Rightarrow> 'p \<Rightarrow> ('s, cint) member" where
  "deliverFeedback this data_packet = deliverFeedback_impl this data_packet"

record FeedbackSource =
  fb_sink :: "addr option"

definition FeedbackSource_ctor :: FeedbackSource where
  "FeedbackSource_ctor = \<lparr> fb_sink = None \<rparr>"

definition setFeedbackSink :: "addr option \<Rightarrow> (FeedbackSource, unit) member" where
  "setFeedbackSink sink = wr Fb_sink (\<lambda>s. s\<lparr>fb_sink := sink\<rparr>)"

subsection \<open>MediaSink\<close>

record MediaSink = Monitor +
  audio_sink_ssrc :: u32
  video_sink_ssrc :: u32
  sink_fb_source :: "addr option"

record ('s, 'p) MediaSink_vtable =
  deliverAudioData_impl :: "'p \<Rightarrow> ('s, cint) member"
  deliverVideoData_impl :: "'p \<Rightarrow> ('s, cint) member"

definition MediaSink_ctor :: MediaSink where
  "MediaSink_ctor =
     \<lparr> monitor_mutex = False, audio_sink_ssrc = 0, video_sink_ssrc = 0, sink_fb_source = None \<rparr>"

definition deliverAudioData :: "('s, 'p) MediaSink_vtable \<Rightarrow> 'p \<Rightarrow> ('s, cint) member" where
  "deliverAudioData this data_packet = deliverAudioData_impl this data_packet"

definition deliverVideoData :: "('s, 'p) MediaSink_vtable \<Rightarrow> 'p \<Rightarrow> ('s, cint) member" where
  "deliverVideoData this data_packet = deliverVideoData_impl this data_packet"

definition getVideoSinkSSRC :: "(MediaSink, u32) member" where
  "getVideoSinkSSRC = scoped_lock (rd Video_sink_ssrc video_sink_ssrc)"

definition setVideoSinkSSRC :: "u32 \<Rightarrow> (MediaSink, unit) member" where
  "setVideoSinkSSRC ssrc = scoped_lock (wr Video_sink_ssrc (\<lambda>s. s\<lparr>video_sink_ssrc := ssrc\<rparr>))"

definition getAudioSinkSSRC :: "(MediaSink, u32) member" where
  "getAudioSinkSSRC = scoped_lock (rd Audio_sink_ssrc audio_sink_ssrc)"

definition setAudioSinkSSRC :: "u32 \<Rightarrow> (MediaSink, unit) member" where
  "setAudioSinkSSRC ssrc = scoped_lock (wr Audio_sink_ssrc (\<lambda>s. s\<lparr>audio_sink_ssrc := ssrc\<rparr>))"

definition isVideoSinkSSRC :: "u32 \<Rightarrow> (MediaSink, bool) member" where
  "isVideoSinkSSRC ssrc = rd Video_sink_ssrc (\<lambda>s. ssrc = video_sink_ssrc s)"

definition isAudioSinkSSRC :: "u32 \<Rightarrow> (MediaSink, bool) member" where
  "isAudioSinkSSRC ssrc = rd Audio_sink_ssrc (\<lambda>s. ssrc = audio_sink_ssrc s)"

definition getFeedbackSource :: "(MediaSink, addr option) member" where
  "getFeedbackSource = scoped_lock (rd Sink_fb_source sink_fb_source)"

subsection \<open>MediaSource\<close>

record MediaSource = Monitor +
  audio_source_ssrc :: u32
  video_source_ssrc_list :: "u32 list"
  video_sink :: "addr option"
  audio_sink :: "addr option"
  source_fb_sink :: "addr option"

text \<open>\<^verbatim>\<open>std::vector<uint32_t>(1, 0)\<close> is the vector of one element, zero.\<close>

definition MediaSource_ctor :: MediaSource where
  "MediaSource_ctor =
     \<lparr> monitor_mutex = False, audio_source_ssrc = 0, video_source_ssrc_list = replicate 1 0,
       video_sink = None, audio_sink = None, source_fb_sink = None \<rparr>"

definition setAudioSink :: "addr option \<Rightarrow> (MediaSource, unit) member" where
  "setAudioSink audio_sink_arg = scoped_lock (wr Audio_sink (\<lambda>s. s\<lparr>audio_sink := audio_sink_arg\<rparr>))"

definition setVideoSink :: "addr option \<Rightarrow> (MediaSource, unit) member" where
  "setVideoSink video_sink_arg = scoped_lock (wr Video_sink (\<lambda>s. s\<lparr>video_sink := video_sink_arg\<rparr>))"

definition getFeedbackSink :: "(MediaSource, addr option) member" where
  "getFeedbackSink = scoped_lock (rd Source_fb_sink source_fb_sink)"

text \<open>
  \<^verbatim>\<open>video_source_ssrc_list_[0]\<close>: \<^verbatim>\<open>operator[]\<close> of a vector does not check its index, and
  index 0 of an empty vector is undefined.
\<close>

definition getVideoSourceSSRC :: "(MediaSource, u32) member" where
  "getVideoSourceSSRC =
     scoped_lock (\<lambda>s. if 0 < length (video_source_ssrc_list s)
                      then rd Video_source_ssrc_list (\<lambda>s. video_source_ssrc_list s ! 0) s
                      else Inl UB)"

definition setVideoSourceSSRC :: "u32 \<Rightarrow> (MediaSource, unit) member" where
  "setVideoSourceSSRC ssrc =
     scoped_lock (\<lambda>s. if 0 < length (video_source_ssrc_list s)
                      then wr Video_source_ssrc_list
                             (\<lambda>s. s\<lparr>video_source_ssrc_list := (video_source_ssrc_list s)[0 := ssrc]\<rparr>) s
                      else Inl UB)"

definition getVideoSourceSSRCList :: "(MediaSource, u32 list) member" where
  "getVideoSourceSSRCList = scoped_lock (rd Video_source_ssrc_list video_source_ssrc_list)"

definition setVideoSourceSSRCList :: "u32 list \<Rightarrow> (MediaSource, unit) member" where
  "setVideoSourceSSRCList new_ssrc_list =
     scoped_lock (wr Video_source_ssrc_list (\<lambda>s. s\<lparr>video_source_ssrc_list := new_ssrc_list\<rparr>))"

definition getAudioSourceSSRC :: "(MediaSource, u32) member" where
  "getAudioSourceSSRC = scoped_lock (rd Audio_source_ssrc audio_source_ssrc)"

definition setAudioSourceSSRC :: "u32 \<Rightarrow> (MediaSource, unit) member" where
  "setAudioSourceSSRC ssrc = scoped_lock (wr Audio_source_ssrc (\<lambda>s. s\<lparr>audio_source_ssrc := ssrc\<rparr>))"

definition isVideoSourceSSRC :: "u32 \<Rightarrow> (MediaSource, bool) member" where
  "isVideoSourceSSRC ssrc =
     rd Video_source_ssrc_list
        (\<lambda>s. let found_ssrc = find_if (\<lambda>known_ssrc. known_ssrc = ssrc) (video_source_ssrc_list s)
             in found_ssrc \<noteq> end_it (video_source_ssrc_list s))"

definition isAudioSourceSSRC :: "u32 \<Rightarrow> (MediaSource, bool) member" where
  "isAudioSourceSSRC ssrc = rd Audio_source_ssrc (\<lambda>s. audio_source_ssrc s = ssrc)"

subsection \<open>Calls from a client\<close>

text \<open>
  The member functions that this header defines for a media source and a media sink,
  as a client can call them one after another. \<^verbatim>\<open>sendPLI\<close> and \<^verbatim>\<open>close\<close> are pure
  virtual and have no body here; the delivery functions are covered by the vtables above.
\<close>

datatype retval = Void | U32 u32 | SSRCs "u32 list" | Bool bool | Ptr "addr option"

definition returning :: "('a \<Rightarrow> retval) \<Rightarrow> ('s, 'a) member \<Rightarrow> ('s, retval) member" where
  "returning k m s = (case m s of Inl e \<Rightarrow> Inl e | Inr (a, s', es) \<Rightarrow> Inr (k a, s', es))"

datatype source_op =
    SetAudioSink "addr option"
  | SetVideoSink "addr option"
  | GetFeedbackSink
  | GetVideoSourceSSRC
  | SetVideoSourceSSRC u32
  | GetVideoSourceSSRCList
  | SetVideoSourceSSRCList "u32 list"
  | GetAudioSourceSSRC
  | SetAudioSourceSSRC u32
  | IsVideoSourceSSRC u32
  | IsAudioSourceSSRC u32

fun source_call :: "source_op \<Rightarrow> (MediaSource, retval) member" where
  "source_call (SetAudioSink a) = returning (\<lambda>_. Void) (setAudioSink a)"
| "source_call (SetVideoSink a) = returning (\<lambda>_. Void) (setVideoSink a)"
| "source_call GetFeedbackSink = returning Ptr getFeedbackSink"
| "source_call GetVideoSourceSSRC = returning U32 getVideoSourceSSRC"
| "source_call (SetVideoSourceSSRC ssrc) = returning (\<lambda>_. Void) (setVideoSourceSSRC ssrc)"
| "source_call GetVideoSourceSSRCList = returning SSRCs getVideoSourceSSRCList"
| "source_call (SetVideoSourceSSRCList l) = returning (\<lambda>_. Void) (setVideoSourceSSRCList l)"
| "source_call GetAudioSourceSSRC = returning U32 getAudioSourceSSRC"
| "source_call (SetAudioSourceSSRC ssrc) = returning (\<lambda>_. Void) (setAudioSourceSSRC ssrc)"
| "source_call (IsVideoSourceSSRC ssrc) = returning Bool (isVideoSourceSSRC ssrc)"
| "source_call (IsAudioSourceSSRC ssrc) = returning Bool (isAudioSourceSSRC ssrc)"

fun source_run :: "source_op list \<Rightarrow> MediaSource \<Rightarrow> fault + MediaSource" where
  "source_run [] s = Inr s"
| "source_run (c # cs) s =
     (case source_call c s of Inl e \<Rightarrow> Inl e | Inr (r, s', es) \<Rightarrow> source_run cs s')"

datatype sink_op =
    GetVideoSinkSSRC
  | SetVideoSinkSSRC u32
  | GetAudioSinkSSRC
  | SetAudioSinkSSRC u32
  | IsVideoSinkSSRC u32
  | IsAudioSinkSSRC u32
  | GetFeedbackSource

fun sink_call :: "sink_op \<Rightarrow> (MediaSink, retval) member" where
  "sink_call GetVideoSinkSSRC = returning U32 getVideoSinkSSRC"
| "sink_call (SetVideoSinkSSRC ssrc) = returning (\<lambda>_. Void) (setVideoSinkSSRC ssrc)"
| "sink_call GetAudioSinkSSRC = returning U32 getAudioSinkSSRC"
| "sink_call (SetAudioSinkSSRC ssrc) = returning (\<lambda>_. Void) (setAudioSinkSSRC ssrc)"
| "sink_call (IsVideoSinkSSRC ssrc) = returning Bool (isVideoSinkSSRC ssrc)"
| "sink_call (IsAudioSinkSSRC ssrc) = returning Bool (isAudioSinkSSRC ssrc)"
| "sink_call GetFeedbackSource = returning Ptr getFeedbackSource"

text \<open>The calls named \<^verbatim>\<open>is...SSRC\<close>, as opposed to the \<^verbatim>\<open>get...\<close> and \<^verbatim>\<open>set...\<close> accessors.\<close>

fun source_test :: "source_op \<Rightarrow> bool" where
  "source_test (IsVideoSourceSSRC ssrc) = True"
| "source_test (IsAudioSourceSSRC ssrc) = True"
| "source_test c = False"

fun sink_test :: "sink_op \<Rightarrow> bool" where
  "sink_test (IsVideoSinkSSRC ssrc) = True"
| "sink_test (IsAudioSinkSSRC ssrc) = True"
| "sink_test c = False"

text \<open>
  The one access to a member variable that the body of each member function makes, and
  the two calls of a source that index slot 0 of the simulcast list.
\<close>

fun source_access :: "source_op \<Rightarrow> event" where
  "source_access (SetAudioSink a) = Wr Audio_sink"
| "source_access (SetVideoSink a) = Wr Video_sink"
| "source_access GetFeedbackSink = Rd Source_fb_sink"
| "source_access GetVideoSourceSSRC = Rd Video_source_ssrc_list"
| "source_access (SetVideoSourceSSRC ssrc) = Wr Video_source_ssrc_list"
| "source_access GetVideoSourceSSRCList = Rd Video_source_ssrc_list"
| "source_access (SetVideoSourceSSRCList l) = Wr Video_source_ssrc_list"
| "source_access GetAudioSourceSSRC = Rd Audio_source_ssrc"
| "source_access (SetAudioSourceSSRC ssrc) = Wr Audio_source_ssrc"
| "source_access (IsVideoSourceSSRC ssrc) = Rd Video_source_ssrc_list"
| "source_access (IsAudioSourceSSRC ssrc) = Rd Audio_source_ssrc"

fun sink_access :: "sink_op \<Rightarrow> event" where
  "sink_access GetVideoSinkSSRC = Rd Video_sink_ssrc"
| "sink_access (SetVideoSinkSSRC ssrc) = Wr Video_sink_ssrc"
| "sink_access GetAudioSinkSSRC = Rd Audio_sink_ssrc"
| "sink_access (SetAudioSinkSSRC ssrc) = Wr Audio_sink_ssrc"
| "sink_access (IsVideoSinkSSRC ssrc) = Rd Video_sink_ssrc"
| "sink_access (IsAudioSinkSSRC ssrc) = Rd Audio_sink_ssrc"
| "sink_access GetFeedbackSource = Rd Sink_fb_source"

fun source_slot0 :: "source_op \<Rightarrow> bool" where
  "source_slot0 GetVideoSourceSSRC = True"
| "source_slot0 (SetVideoSourceSSRC ssrc) = True"
| "source_slot0 c = False"

subsection \<open>Stated properties of the states and executions\<close>

text \<open>The simulcast list of a source has a slot 0.\<close>

definition ssrc_list_inv :: "MediaSource \<Rightarrow> bool" where
  "ssrc_list_inv s = (0 < length (video_source_ssrc_list s))"

text \<open>
  An execution keeps the locking discipline when the mutex is taken before the first
  access to a field, every access happens while it is held, and it has been given back
  when the member function returns. The first argument tells whether the mutex is held
  at this point of the execution.
\<close>

fun guarded :: "bool \<Rightarrow> event list \<Rightarrow> bool" where
  "guarded held [] = (\<not> held)"
| "guarded held (Acquire # es) = (\<not> held \<and> guarded True es)"
| "guarded held (Release # es) = (held \<and> guarded False es)"
| "guarded held (Rd f # es) = (held \<and> guarded held es)"
| "guarded held (Wr f # es) = (held \<and> guarded held es)"

section \<open>Properties\<close>

subsection \<open>Helper facts\<close>

lemma find_if_end_iff: "find_if pred xs \<noteq> length xs \<longleftrightarrow> (\<exists>x \<in> set xs. pred x)"
  by (induction xs) auto

subsection \<open>Freshly constructed sinks and sources\<close>

text \<open>
  C10. A freshly constructed MediaSink answers 0 to getAudioSinkSSRC and to
  getVideoSinkSSRC and null to getFeedbackSource; a freshly constructed MediaSource
  answers 0 to getAudioSourceSSRC and to getVideoSourceSSRC and null to getFeedbackSink,
  and its two attached sinks are null. Each getter returns normally, leaves the object as
  it was, and takes and gives back the mutex around its read.
\<close>

theorem fresh_objects_defaults:
  "getAudioSinkSSRC MediaSink_ctor = Inr (0, MediaSink_ctor, [Acquire, Rd Audio_sink_ssrc, Release])
   \<and> getVideoSinkSSRC MediaSink_ctor = Inr (0, MediaSink_ctor, [Acquire, Rd Video_sink_ssrc, Release])
   \<and> getFeedbackSource MediaSink_ctor = Inr (None, MediaSink_ctor, [Acquire, Rd Sink_fb_source, Release])
   \<and> getAudioSourceSSRC MediaSource_ctor
       = Inr (0, MediaSource_ctor, [Acquire, Rd Audio_source_ssrc, Release])
   \<and> getVideoSourceSSRC MediaSource_ctor
       = Inr (0, MediaSource_ctor, [Acquire, Rd Video_source_ssrc_list, Release])
   \<and> getFeedbackSink MediaSource_ctor
       = Inr (None, MediaSource_ctor, [Acquire, Rd Source_fb_sink, Release])
   \<and> video_sink MediaSource_ctor = None
   \<and> audio_sink MediaSource_ctor = None"
  by (simp add: getAudioSinkSSRC_def getVideoSinkSSRC_def getFeedbackSource_def
      getAudioSourceSSRC_def getVideoSourceSSRC_def getFeedbackSink_def
      scoped_lock_def rd_def MediaSink_ctor_def MediaSource_ctor_def)

subsection \<open>Delivery wrappers\<close>

text \<open>
  C8. For every concrete implementation (vtable), every packet and every state of the
  concrete object, the public delivery functions are forwarders:
  deliverAudioData gives exactly the outcome of the implementation's deliverAudioData_,
  deliverVideoData that of deliverVideoData_, and deliverFeedback that of
  deliverFeedback_: the same status or fault, the same object afterwards and the same
  events, so the wrapper adds no change of its own.
\<close>

theorem delivery_wrappers_forward:
  "deliverAudioData snk p s = deliverAudioData_impl snk p s
   \<and> deliverVideoData snk p s = deliverVideoData_impl snk p s
   \<and> deliverFeedback fbs q t = deliverFeedback_impl fbs q t"
  by (simp add: deliverAudioData_def deliverVideoData_def deliverFeedback_def)

subsection \<open>Membership tests\<close>

text \<open>
  C6. For every MediaSource and identifier, isVideoSourceSSRC answers true exactly when
  the identifier occurs somewhere in the whole simulcast list, and isAudioSourceSSRC
  exactly when it equals the audio identifier; neither changes the source. With the list
  [111, 222], isVideoSourceSSRC 222 is true and isVideoSourceSSRC 333 is false.
\<close>

theorem is_source_ssrc_membership:
  "isVideoSourceSSRC ssrc s
     = Inr (ssrc \<in> set (video_source_ssrc_list s), s, [Rd Video_source_ssrc_list])
   \<and> isAudioSourceSSRC ssrc s = Inr (audio_source_ssrc s = ssrc, s, [Rd Audio_source_ssrc])
   \<and> isVideoSourceSSRC 222 (s\<lparr>video_source_ssrc_list := [111, 222]\<rparr>)
     = Inr (True, s\<lparr>video_source_ssrc_list := [111, 222]\<rparr>, [Rd Video_source_ssrc_list])
   \<and> isVideoSourceSSRC 333 (s\<lparr>video_source_ssrc_list := [111, 222]\<rparr>)
     = Inr (False, s\<lparr>video_source_ssrc_list := [111, 222]\<rparr>, [Rd Video_source_ssrc_list])"
proof -
  have video: "isVideoSourceSSRC x t
     = Inr (x \<in> set (video_source_ssrc_list t), t, [Rd Video_source_ssrc_list])" for x t
    by (simp add: isVideoSourceSSRC_def rd_def end_it_def find_if_end_iff)
  have audio: "isAudioSourceSSRC ssrc s
     = Inr (audio_source_ssrc s = ssrc, s, [Rd Audio_source_ssrc])"
    by (simp add: isAudioSourceSSRC_def rd_def)
  show ?thesis
    by (simp add: video audio)
qed

text \<open>
  C3. For every packet and every index, belongsToSpatialLayer answers true exactly when
  the index is in compatible_spatial_layers and belongsToTemporalLayer exactly when it is
  in compatible_temporal_layers; with an empty layer list the answer is false for every
  index; and the packet after the call is the packet before it.
\<close>

theorem belongs_to_layer_membership:
  "belongsToSpatialLayer i p = (i \<in> set (compatible_spatial_layers p), p)
   \<and> belongsToTemporalLayer i p = (i \<in> set (compatible_temporal_layers p), p)
   \<and> belongsToSpatialLayer i (p\<lparr>compatible_spatial_layers := []\<rparr>)
     = (False, p\<lparr>compatible_spatial_layers := []\<rparr>)
   \<and> belongsToTemporalLayer i (p\<lparr>compatible_temporal_layers := []\<rparr>)
     = (False, p\<lparr>compatible_temporal_layers := []\<rparr>)"
proof -
  have mem: "\<And>l. (find_if (\<lambda>x. x = i) l \<noteq> length l) = (i \<in> set l)"
    by (simp add: find_if_end_iff)
  show ?thesis
    by (simp add: belongsToSpatialLayer_def belongsToTemporalLayer_def find_std_def
        end_it_def mem)
qed

subsection \<open>Packet construction\<close>

lemma size_t_of_int_nonneg: "0 \<le> sint n \<Longrightarrow> size_t_of_int n = nat (sint n)"
  by (simp add: size_t_of_int_def)

lemma dataPacket_body_init:
  assumes "0 \<le> sint length_arg" and "sint length_arg \<le> 1500"
    and "nat (sint length_arg) \<le> length data_arg"
  shows "dataPacket_body data_arg length_arg (dataPacket_init c length_arg ty t)
         = Inr ((dataPacket_init c length_arg ty t)
                 \<lparr>data_pkt := map Some (take (nat (sint length_arg)) data_arg)
                              @ replicate (1500 - nat (sint length_arg)) None\<rparr>)"
proof -
  have "nat (sint length_arg) \<le> 1500"
    using assms(1,2) by simp
  then show ?thesis
    using assms
    by (simp add: dataPacket_body_def memcpy_def size_t_of_int_nonneg dataPacket_init_def
        capacity_def)
qed

text \<open>
  A length above the capacity, or a negative one, is outside what the array can take:
  the copy is undefined and the constructor body faults.
\<close>

lemma dataPacket_body_oversized:
  assumes "sint length_arg < 0 \<or> 1500 < sint length_arg"
  shows "dataPacket_body data_arg length_arg (dataPacket_init c length_arg ty t) = Inl UB"
proof -
  have lower: "- (2 ^ 31) \<le> sint length_arg"
    using sint_ge [of length_arg] by simp
  have "1500 < size_t_of_int length_arg"
    using assms lower by (auto simp add: size_t_of_int_def)
  then show ?thesis
    by (simp add: dataPacket_body_def memcpy_def dataPacket_init_def capacity_def)
qed

text \<open>
  C2. For every source buffer and every length between 0 and 1500 that the buffer covers,
  each of the three constructors returns a packet whose length field is the given length
  and whose first length payload bytes are, byte for byte, the first length bytes of the
  source buffer. The packet holds these bytes in its own array of 1500 bytes (the record
  contains the bytes, not a reference to the caller's buffer), and the bytes beyond
  length are left as they were, not initialised.
\<close>

theorem dataPacket_copies_payload:
  assumes "0 \<le> sint length_arg" and "sint length_arg \<le> 1500"
    and "nat (sint length_arg) \<le> length data_arg"
  shows "\<exists>p1 p2 p3.
           dataPacket_ctor_timed c data_arg length_arg ty t = Inr p1
         \<and> dataPacket_ctor_typed now_ms c data_arg length_arg ty = Inr p2
         \<and> dataPacket_ctor_video now_ms c data_arg length_arg = Inr p3
         \<and> length_pkt p1 = length_arg \<and> length_pkt p2 = length_arg \<and> length_pkt p3 = length_arg
         \<and> length (data_pkt p1) = 1500 \<and> length (data_pkt p2) = 1500
         \<and> length (data_pkt p3) = 1500
         \<and> take (nat (sint length_arg)) (data_pkt p1)
             = map Some (take (nat (sint length_arg)) data_arg)
         \<and> take (nat (sint length_arg)) (data_pkt p2)
             = map Some (take (nat (sint length_arg)) data_arg)
         \<and> take (nat (sint length_arg)) (data_pkt p3)
             = map Some (take (nat (sint length_arg)) data_arg)
         \<and> drop (nat (sint length_arg)) (data_pkt p1)
             = replicate (1500 - nat (sint length_arg)) None"
proof -
  have n: "nat (sint length_arg) \<le> 1500"
    using assms(1,2) by simp
  have len: "length (take (nat (sint length_arg)) data_arg) = nat (sint length_arg)"
    using assms(3) by simp
  show ?thesis
    unfolding dataPacket_ctor_timed_def dataPacket_ctor_typed_def dataPacket_ctor_video_def
      dataPacket_body_init [OF assms]
    using n len by (simp add: dataPacket_init_def)
qed

theorem dataPacket_copies_payload_witness:
  "0 \<le> sint (3 :: cint) \<and> sint (3 :: cint) \<le> 1500
   \<and> nat (sint (3 :: cint)) \<le> length [10, 20, 30, 40 :: byte]
   \<and> (\<exists>p1 p2 p3.
          dataPacket_ctor_timed 1 [10, 20, 30, 40] 3 AUDIO_PACKET 99 = Inr p1
        \<and> dataPacket_ctor_typed 77 1 [10, 20, 30, 40] 3 AUDIO_PACKET = Inr p2
        \<and> dataPacket_ctor_video 77 1 [10, 20, 30, 40] 3 = Inr p3
        \<and> length_pkt p1 = 3 \<and> length_pkt p2 = 3 \<and> length_pkt p3 = 3
        \<and> take 3 (data_pkt p1) = [Some 10, Some 20, Some 30]
        \<and> take 3 (data_pkt p2) = [Some 10, Some 20, Some 30]
        \<and> take 3 (data_pkt p3) = [Some 10, Some 20, Some 30])"
proof -
  have h1: "0 \<le> sint (3 :: cint)" by simp
  have h2: "sint (3 :: cint) \<le> 1500" by simp
  have h3: "nat (sint (3 :: cint)) \<le> length [10, 20, 30, 40 :: byte]" by simp
  have three: "nat (sint (3 :: cint)) = 3" by simp
  from dataPacket_copies_payload [OF h1 h2 h3, of 1 AUDIO_PACKET 99 77]
  obtain p1 p2 p3 where
    "dataPacket_ctor_timed 1 [10, 20, 30, 40] 3 AUDIO_PACKET 99 = Inr p1"
    "dataPacket_ctor_typed 77 1 [10, 20, 30, 40] 3 AUDIO_PACKET = Inr p2"
    "dataPacket_ctor_video 77 1 [10, 20, 30, 40] 3 = Inr p3"
    "length_pkt p1 = 3" "length_pkt p2 = 3" "length_pkt p3 = 3"
    "take 3 (data_pkt p1) = map Some (take 3 [10, 20, 30, 40])"
    "take 3 (data_pkt p2) = map Some (take 3 [10, 20, 30, 40])"
    "take 3 (data_pkt p3) = map Some (take 3 [10, 20, 30, 40])"
    unfolding three by blast
  then show ?thesis
    using h1 h2 h3 by (simp add: numeral_3_eq_3)
qed

text \<open>
  C9. The constructor that takes a component, a buffer of unsigned bytes and a length
  (a length between 0 and 1500 that the buffer covers) returns a packet of kind
  VIDEO_PACKET, stamped with the reading of the clock, not marked as a keyframe, with both
  layer lists empty, and with the given component and length.
\<close>

theorem video_ctor_defaults:
  assumes "0 \<le> sint length_arg" and "sint length_arg \<le> 1500"
    and "nat (sint length_arg) \<le> length data_arg"
  shows "\<exists>p. dataPacket_ctor_video now_ms c data_arg length_arg = Inr p
           \<and> type_pkt p = VIDEO_PACKET
           \<and> received_time_ms p = now_ms
           \<and> \<not> is_keyframe p
           \<and> compatible_spatial_layers p = []
           \<and> compatible_temporal_layers p = []
           \<and> comp_pkt p = c
           \<and> length_pkt p = length_arg"
  unfolding dataPacket_ctor_video_def dataPacket_body_init [OF assms]
  by (simp add: dataPacket_init_def)

theorem video_ctor_defaults_witness:
  "0 \<le> sint (2 :: cint) \<and> sint (2 :: cint) \<le> 1500
   \<and> nat (sint (2 :: cint)) \<le> length [255, 1 :: byte]
   \<and> (\<exists>p. dataPacket_ctor_video 123456 0 [255, 1] 2 = Inr p
          \<and> type_pkt p = VIDEO_PACKET \<and> received_time_ms p = 123456 \<and> \<not> is_keyframe p
          \<and> compatible_spatial_layers p = [] \<and> compatible_temporal_layers p = []
          \<and> comp_pkt p = 0 \<and> length_pkt p = 2)"
proof -
  have h1: "0 \<le> sint (2 :: cint)" by simp
  have h2: "sint (2 :: cint) \<le> 1500" by simp
  have h3: "nat (sint (2 :: cint)) \<le> length [255, 1 :: byte]" by simp
  show ?thesis
    using h1 h2 h3 video_ctor_defaults [OF h1 h2 h3, of 123456 0] by blast
qed

subsection \<open>The simulcast list of a source\<close>

lemma getVideoSourceSSRC_free:
  "\<not> monitor_mutex s \<Longrightarrow> video_source_ssrc_list s \<noteq> [] \<Longrightarrow>
   getVideoSourceSSRC s
     = Inr (video_source_ssrc_list s ! 0, s, [Acquire, Rd Video_source_ssrc_list, Release])"
  by (simp add: getVideoSourceSSRC_def scoped_lock_def rd_def)

lemma setVideoSourceSSRC_free:
  "\<not> monitor_mutex s \<Longrightarrow> video_source_ssrc_list s \<noteq> [] \<Longrightarrow>
   setVideoSourceSSRC ssrc s
     = Inr ((), s\<lparr>video_source_ssrc_list := (video_source_ssrc_list s)[0 := ssrc]\<rparr>,
            [Acquire, Wr Video_source_ssrc_list, Release])"
  by (simp add: setVideoSourceSSRC_def scoped_lock_def wr_def)

lemma getVideoSourceSSRCList_free:
  "\<not> monitor_mutex s \<Longrightarrow>
   getVideoSourceSSRCList s
     = Inr (video_source_ssrc_list s, s, [Acquire, Rd Video_source_ssrc_list, Release])"
  by (simp add: getVideoSourceSSRCList_def scoped_lock_def rd_def)

lemma setVideoSourceSSRCList_free:
  "\<not> monitor_mutex s \<Longrightarrow>
   setVideoSourceSSRCList l s
     = Inr ((), s\<lparr>video_source_ssrc_list := l\<rparr>, [Acquire, Wr Video_source_ssrc_list, Release])"
  by (simp add: setVideoSourceSSRCList_def scoped_lock_def wr_def)

text \<open>
  C5. For every MediaSource whose simulcast list is not empty, called while its mutex is
  free, getVideoSourceSSRC returns the element at index 0 and leaves the source as it
  was, and setVideoSourceSSRC replaces the element at index 0 by its argument: the list
  keeps its length, every element at an index other than 0 keeps its value, and every
  other field of the source is unchanged.
\<close>

theorem primary_video_ssrc_get_set:
  assumes "video_source_ssrc_list s \<noteq> []" and "\<not> monitor_mutex s"
  shows "getVideoSourceSSRC s
           = Inr (video_source_ssrc_list s ! 0, s, [Acquire, Rd Video_source_ssrc_list, Release])
       \<and> (\<exists>s'. setVideoSourceSSRC ssrc s = Inr ((), s', [Acquire, Wr Video_source_ssrc_list, Release])
              \<and> s' = s\<lparr>video_source_ssrc_list := (video_source_ssrc_list s)[0 := ssrc]\<rparr>
              \<and> video_source_ssrc_list s' ! 0 = ssrc
              \<and> length (video_source_ssrc_list s') = length (video_source_ssrc_list s)
              \<and> (\<forall>i. 0 < i \<longrightarrow> video_source_ssrc_list s' ! i = video_source_ssrc_list s ! i)
              \<and> audio_source_ssrc s' = audio_source_ssrc s
              \<and> video_sink s' = video_sink s
              \<and> audio_sink s' = audio_sink s
              \<and> source_fb_sink s' = source_fb_sink s
              \<and> monitor_mutex s' = monitor_mutex s)"
  using assms
  by (simp add: getVideoSourceSSRC_free setVideoSourceSSRC_free)

theorem primary_video_ssrc_get_set_witness:
  "video_source_ssrc_list (MediaSource_ctor\<lparr>video_source_ssrc_list := [111, 222]\<rparr>) \<noteq> []
   \<and> \<not> monitor_mutex (MediaSource_ctor\<lparr>video_source_ssrc_list := [111, 222]\<rparr>)
   \<and> getVideoSourceSSRC (MediaSource_ctor\<lparr>video_source_ssrc_list := [111, 222]\<rparr>)
       = Inr (111, MediaSource_ctor\<lparr>video_source_ssrc_list := [111, 222]\<rparr>,
              [Acquire, Rd Video_source_ssrc_list, Release])
   \<and> setVideoSourceSSRC 5 (MediaSource_ctor\<lparr>video_source_ssrc_list := [111, 222]\<rparr>)
       = Inr ((), MediaSource_ctor\<lparr>video_source_ssrc_list := [5, 222]\<rparr>,
              [Acquire, Wr Video_source_ssrc_list, Release])"
proof -
  let ?s = "MediaSource_ctor\<lparr>video_source_ssrc_list := [111, 222]\<rparr>"
  have h1: "video_source_ssrc_list ?s \<noteq> []" by simp
  have h2: "\<not> monitor_mutex ?s" by (simp add: MediaSource_ctor_def)
  show ?thesis
    using h1 h2 primary_video_ssrc_get_set [OF h1 h2, of 5] by simp
qed

text \<open>
  C7. getVideoSourceSSRCList, called while the mutex is free, returns the simulcast list
  as it is at the time of the call and leaves the source as it was. The returned sequence
  is a value of its own: whatever calls follow on the source (setVideoSourceSSRCList,
  setVideoSourceSSRC or any others), the sequence that was returned is still the list of
  the time of the call, while the list of the source has become what those calls made of
  it.
\<close>

theorem ssrc_list_getter_snapshot:
  assumes "\<not> monitor_mutex s"
  shows "getVideoSourceSSRCList s
           = Inr (video_source_ssrc_list s, s, [Acquire, Rd Video_source_ssrc_list, Release])
       \<and> (\<forall>snap s1 tr cs s2.
             getVideoSourceSSRCList s = Inr (snap, s1, tr) \<and> source_run cs s1 = Inr s2
             \<longrightarrow> snap = video_source_ssrc_list s)
       \<and> (\<forall>snap s1 tr new.
             getVideoSourceSSRCList s = Inr (snap, s1, tr)
             \<longrightarrow> (\<exists>s2 tr2. setVideoSourceSSRCList new s1 = Inr ((), s2, tr2)
                    \<and> video_source_ssrc_list s2 = new
                    \<and> snap = video_source_ssrc_list s))"
  using assms
  by (simp add: getVideoSourceSSRCList_free setVideoSourceSSRCList_free)

theorem ssrc_list_getter_snapshot_witness:
  "\<not> monitor_mutex (MediaSource_ctor\<lparr>video_source_ssrc_list := [111, 222]\<rparr>)
   \<and> getVideoSourceSSRCList (MediaSource_ctor\<lparr>video_source_ssrc_list := [111, 222]\<rparr>)
       = Inr ([111, 222], MediaSource_ctor\<lparr>video_source_ssrc_list := [111, 222]\<rparr>,
              [Acquire, Rd Video_source_ssrc_list, Release])
   \<and> source_run [SetVideoSourceSSRCList [5, 6, 7], SetVideoSourceSSRC 9]
        (MediaSource_ctor\<lparr>video_source_ssrc_list := [111, 222]\<rparr>)
       = Inr (MediaSource_ctor\<lparr>video_source_ssrc_list := [9, 6, 7]\<rparr>)"
proof -
  let ?s = "MediaSource_ctor\<lparr>video_source_ssrc_list := [111, 222]\<rparr>"
  have h: "\<not> monitor_mutex ?s" by (simp add: MediaSource_ctor_def)
  have run: "source_run [SetVideoSourceSSRCList [5, 6, 7], SetVideoSourceSSRC 9] ?s
       = Inr (MediaSource_ctor\<lparr>video_source_ssrc_list := [9, 6, 7]\<rparr>)"
    by (simp add: returning_def setVideoSourceSSRCList_def setVideoSourceSSRC_def
        scoped_lock_def wr_def MediaSource_ctor_def)
  show ?thesis
    using h run ssrc_list_getter_snapshot [OF h] by simp
qed

lemmas source_member_defs =
  setAudioSink_def setVideoSink_def getFeedbackSink_def getVideoSourceSSRC_def
  setVideoSourceSSRC_def getVideoSourceSSRCList_def setVideoSourceSSRCList_def
  getAudioSourceSSRC_def setAudioSourceSSRC_def isVideoSourceSSRC_def isAudioSourceSSRC_def

lemmas sink_member_defs =
  getVideoSinkSSRC_def setVideoSinkSSRC_def getAudioSinkSSRC_def setAudioSinkSSRC_def
  isVideoSinkSSRC_def isAudioSinkSSRC_def getFeedbackSource_def

lemma source_call_returns:
  assumes "ssrc_list_inv s" and "\<not> monitor_mutex s"
  shows "\<exists>r s' tr. source_call c s = Inr (r, s', tr) \<and> \<not> monitor_mutex s'"
  using assms
  by (cases c)
     (simp_all add: returning_def source_member_defs scoped_lock_def rd_def wr_def
        ssrc_list_inv_def)

lemma source_call_list:
  assumes "source_call c s = Inr (r, s', tr)"
  shows "video_source_ssrc_list s' =
           (case c of
              SetVideoSourceSSRCList l \<Rightarrow> l
            | SetVideoSourceSSRC ssrc \<Rightarrow> (video_source_ssrc_list s)[0 := ssrc]
            | _ \<Rightarrow> video_source_ssrc_list s)"
  using assms
  by (cases c)
     (auto simp add: returning_def source_member_defs scoped_lock_def rd_def wr_def
        split: if_splits)

text \<open>
  C1 (as the claim states it, refuted). setVideoSourceSSRCList installs the list of the
  caller as it is: called with the empty list on a freshly constructed source it returns
  normally and leaves a source whose simulcast list has no element.
\<close>

theorem ssrc_list_inv_broken_by_empty_list:
  "ssrc_list_inv MediaSource_ctor
   \<and> setVideoSourceSSRCList [] MediaSource_ctor
       = Inr ((), MediaSource_ctor\<lparr>video_source_ssrc_list := []\<rparr>,
              [Acquire, Wr Video_source_ssrc_list, Release])
   \<and> \<not> ssrc_list_inv (MediaSource_ctor\<lparr>video_source_ssrc_list := []\<rparr>)"
  by (simp add: ssrc_list_inv_def setVideoSourceSSRCList_def scoped_lock_def wr_def
      MediaSource_ctor_def)

lemma source_call_inv:
  assumes "ssrc_list_inv s" and "\<not> monitor_mutex s" and "c \<noteq> SetVideoSourceSSRCList []"
  shows "\<exists>r s' tr. source_call c s = Inr (r, s', tr) \<and> ssrc_list_inv s' \<and> \<not> monitor_mutex s'"
proof -
  obtain r s' tr where call: "source_call c s = Inr (r, s', tr)" and free: "\<not> monitor_mutex s'"
    using source_call_returns [OF assms(1,2)] by blast
  have "ssrc_list_inv s'"
    using source_call_list [OF call] assms(1,3)
    by (cases c) (auto simp add: ssrc_list_inv_def)
  with call free show ?thesis by blast
qed

lemma source_run_inv:
  assumes "ssrc_list_inv s" and "\<not> monitor_mutex s" and "SetVideoSourceSSRCList [] \<notin> set cs"
  shows "\<exists>s'. source_run cs s = Inr s' \<and> ssrc_list_inv s' \<and> \<not> monitor_mutex s'"
  using assms
proof (induction cs arbitrary: s)
  case Nil
  then show ?case by simp
next
  case (Cons c cs)
  from Cons.prems have "c \<noteq> SetVideoSourceSSRCList []" and rest: "SetVideoSourceSSRCList [] \<notin> set cs"
    by auto
  with Cons.prems obtain r s1 tr where
    step: "source_call c s = Inr (r, s1, tr)" and inv1: "ssrc_list_inv s1"
    and free1: "\<not> monitor_mutex s1"
    using source_call_inv by blast
  from Cons.IH [OF inv1 free1 rest] step show ?case by simp
qed

text \<open>
  C1 (amended). The simulcast list of a freshly constructed source has one element. Every
  member function that the header defines for a source, called on a source whose list is
  not empty and whose mutex is free, returns normally and leaves the list non-empty and
  the mutex free, provided that the call is not setVideoSourceSSRCList with the empty
  list; hence the list is non-empty after every sequence of such calls on a fresh source.
  setVideoSourceSSRCList itself installs any list: after it the list is non-empty exactly
  when the list of the caller is.
\<close>

theorem ssrc_list_inv_preserved:
  assumes "ssrc_list_inv s" and "\<not> monitor_mutex s"
    and "c \<noteq> SetVideoSourceSSRCList []"
    and "SetVideoSourceSSRCList [] \<notin> set cs"
  shows "ssrc_list_inv MediaSource_ctor
       \<and> (\<exists>r s' tr. source_call c s = Inr (r, s', tr) \<and> ssrc_list_inv s' \<and> \<not> monitor_mutex s')
       \<and> (\<exists>s'. source_run cs MediaSource_ctor = Inr s' \<and> ssrc_list_inv s')
       \<and> (\<exists>s' tr. setVideoSourceSSRCList new s = Inr ((), s', tr)
             \<and> (ssrc_list_inv s' \<longleftrightarrow> new \<noteq> []))"
proof -
  have init: "ssrc_list_inv MediaSource_ctor"
    by (simp add: ssrc_list_inv_def MediaSource_ctor_def)
  have free0: "\<not> monitor_mutex MediaSource_ctor"
    by (simp add: MediaSource_ctor_def)
  have run: "\<exists>s'. source_run cs MediaSource_ctor = Inr s' \<and> ssrc_list_inv s'"
    using source_run_inv [OF init free0 assms(4)] by blast
  have setl: "\<exists>s' tr. setVideoSourceSSRCList new s = Inr ((), s', tr)
      \<and> (ssrc_list_inv s' \<longleftrightarrow> new \<noteq> [])"
    using assms(2) by (simp add: setVideoSourceSSRCList_free ssrc_list_inv_def)
  from init source_call_inv [OF assms(1,2,3)] run setl show ?thesis by blast
qed

theorem ssrc_list_inv_preserved_witness:
  "ssrc_list_inv MediaSource_ctor \<and> \<not> monitor_mutex MediaSource_ctor
   \<and> SetVideoSourceSSRCList [111, 222] \<noteq> SetVideoSourceSSRCList []
   \<and> SetVideoSourceSSRCList [] \<notin> set [SetVideoSourceSSRCList [111, 222], SetVideoSourceSSRC 5]
   \<and> (\<exists>r s' tr. source_call (SetVideoSourceSSRCList [111, 222]) MediaSource_ctor = Inr (r, s', tr)
          \<and> ssrc_list_inv s' \<and> \<not> monitor_mutex s')
   \<and> (\<exists>s'. source_run [SetVideoSourceSSRCList [111, 222], SetVideoSourceSSRC 5] MediaSource_ctor
              = Inr s' \<and> ssrc_list_inv s')"
proof -
  have h1: "ssrc_list_inv MediaSource_ctor"
    by (simp add: ssrc_list_inv_def MediaSource_ctor_def)
  have h2: "\<not> monitor_mutex MediaSource_ctor"
    by (simp add: MediaSource_ctor_def)
  have h3: "SetVideoSourceSSRCList [111, 222] \<noteq> SetVideoSourceSSRCList []"
    by simp
  have h4: "SetVideoSourceSSRCList []
      \<notin> set [SetVideoSourceSSRCList [111, 222], SetVideoSourceSSRC 5]"
    by simp
  show ?thesis
    using h1 h2 h3 h4 ssrc_list_inv_preserved [OF h1 h2 h3 h4] by blast
qed

subsection \<open>Locking discipline of the accessors\<close>

lemma sink_call_discipline:
  assumes "\<not> monitor_mutex snk"
  shows "\<exists>r s'. sink_call a snk
             = Inr (r, s', if sink_test a then [sink_access a]
                           else [Acquire, sink_access a, Release])
           \<and> \<not> monitor_mutex s'
           \<and> sink_fb_source s' = sink_fb_source snk
           \<and> (\<forall>x. a = SetVideoSinkSSRC x \<longrightarrow> video_sink_ssrc s' = x)
           \<and> (\<forall>x. a = SetAudioSinkSSRC x \<longrightarrow> audio_sink_ssrc s' = x)"
  using assms
  by (cases a)
     (simp_all add: returning_def sink_member_defs scoped_lock_def rd_def wr_def)

lemma source_call_discipline:
  assumes "\<not> monitor_mutex src"
    and "video_source_ssrc_list src \<noteq> [] \<or> \<not> source_slot0 c"
  shows "\<exists>r s'. source_call c src
             = Inr (r, s', if source_test c then [source_access c]
                           else [Acquire, source_access c, Release])
           \<and> \<not> monitor_mutex s'
           \<and> (audio_sink s' \<noteq> audio_sink src \<longrightarrow> (\<exists>p. c = SetAudioSink p))
           \<and> (video_sink s' \<noteq> video_sink src \<longrightarrow> (\<exists>p. c = SetVideoSink p))
           \<and> (\<forall>p. c = SetAudioSink p \<longrightarrow> audio_sink s' = p)
           \<and> (\<forall>p. c = SetVideoSink p \<longrightarrow> video_sink s' = p)
           \<and> source_fb_sink s' = source_fb_sink src"
  using assms
  by (cases c)
     (simp_all add: returning_def source_member_defs scoped_lock_def rd_def wr_def)

lemma guarded_source_access:
  "guarded False [Acquire, source_access c, Release] \<and> \<not> guarded False [source_access c]"
  by (cases c) simp_all

lemma guarded_sink_access:
  "guarded False [Acquire, sink_access a, Release] \<and> \<not> guarded False [sink_access a]"
  by (cases a) simp_all

text \<open>
  C4 (as the claim states it, refuted). Two accessors of shared state that run without
  the mutex: FeedbackSource::setFeedbackSink writes the attached feedback sink (the class
  has no mutex at all), and MediaSink::isVideoSinkSSRC reads video_sink_ssrc_; neither
  execution contains an acquisition.
\<close>

theorem accessors_without_guard:
  "setFeedbackSink (Some 1) FeedbackSource_ctor = Inr ((), \<lparr>fb_sink = Some 1\<rparr>, [Wr Fb_sink])
   \<and> \<not> guarded False [Wr Fb_sink]
   \<and> isVideoSinkSSRC 0 MediaSink_ctor = Inr (True, MediaSink_ctor, [Rd Video_sink_ssrc])
   \<and> \<not> guarded False [Rd Video_sink_ssrc]"
  by (simp add: setFeedbackSink_def wr_def FeedbackSource_ctor_def isVideoSinkSSRC_def rd_def
      MediaSink_ctor_def)

text \<open>
  C4 (amended). Called while the mutex is free, every member function that the header
  defines for a MediaSink or a MediaSource returns with the mutex free again (for
  getVideoSourceSSRC and setVideoSourceSSRC, which index slot 0, on a source whose
  simulcast list is not empty). The execution of a get... or set... accessor is exactly:
  the mutex is acquired, the one member variable of the accessor is read or written, the
  mutex is released; so it keeps the locking discipline. The execution of each of the
  four is...SSRC tests is exactly one read of its member variable, with no acquisition;
  so it does not. setAudioSink and setVideoSink store their argument, and the attached
  audio sink and video sink of a source are changed by no other member function; the sink
  setters store their argument; no member function defined here changes source_fb_sink_
  or sink_fb_source_. FeedbackSource has no mutex: the execution of setFeedbackSink is
  exactly one write of fb_sink_, which stores the argument.
\<close>

theorem accessors_locking_discipline:
  assumes "\<not> monitor_mutex snk" and "\<not> monitor_mutex src"
    and "video_source_ssrc_list src \<noteq> [] \<or> \<not> source_slot0 c"
  shows "(\<exists>r s' tr. sink_call a snk = Inr (r, s', tr)
            \<and> tr = (if sink_test a then [sink_access a] else [Acquire, sink_access a, Release])
            \<and> (guarded False tr \<longleftrightarrow> \<not> sink_test a)
            \<and> \<not> monitor_mutex s'
            \<and> sink_fb_source s' = sink_fb_source snk
            \<and> (\<forall>x. a = SetVideoSinkSSRC x \<longrightarrow> video_sink_ssrc s' = x)
            \<and> (\<forall>x. a = SetAudioSinkSSRC x \<longrightarrow> audio_sink_ssrc s' = x))
       \<and> (\<exists>r s' tr. source_call c src = Inr (r, s', tr)
            \<and> tr = (if source_test c then [source_access c]
                     else [Acquire, source_access c, Release])
            \<and> (guarded False tr \<longleftrightarrow> \<not> source_test c)
            \<and> \<not> monitor_mutex s'
            \<and> (audio_sink s' \<noteq> audio_sink src
                 \<longrightarrow> (\<exists>p. c = SetAudioSink p) \<and> tr = [Acquire, Wr Audio_sink, Release])
            \<and> (video_sink s' \<noteq> video_sink src
                 \<longrightarrow> (\<exists>p. c = SetVideoSink p) \<and> tr = [Acquire, Wr Video_sink, Release])
            \<and> (\<forall>p. c = SetAudioSink p \<longrightarrow> audio_sink s' = p)
            \<and> (\<forall>p. c = SetVideoSink p \<longrightarrow> video_sink s' = p)
            \<and> source_fb_sink s' = source_fb_sink src)
       \<and> setFeedbackSink sink fs = Inr ((), fs\<lparr>fb_sink := sink\<rparr>, [Wr Fb_sink])
       \<and> \<not> guarded False [Wr Fb_sink]"
proof -
  obtain r1 s1 where snk:
    "sink_call a snk = Inr (r1, s1, if sink_test a then [sink_access a]
                                     else [Acquire, sink_access a, Release])"
    "\<not> monitor_mutex s1" "sink_fb_source s1 = sink_fb_source snk"
    "\<forall>x. a = SetVideoSinkSSRC x \<longrightarrow> video_sink_ssrc s1 = x"
    "\<forall>x. a = SetAudioSinkSSRC x \<longrightarrow> audio_sink_ssrc s1 = x"
    using sink_call_discipline [OF assms(1), of a] by blast
  have snk_guard: "guarded False (if sink_test a then [sink_access a]
                                   else [Acquire, sink_access a, Release]) \<longleftrightarrow> \<not> sink_test a"
    using guarded_sink_access [of a] by simp
  have part1: "\<exists>r s' tr. sink_call a snk = Inr (r, s', tr)
            \<and> tr = (if sink_test a then [sink_access a] else [Acquire, sink_access a, Release])
            \<and> (guarded False tr \<longleftrightarrow> \<not> sink_test a)
            \<and> \<not> monitor_mutex s'
            \<and> sink_fb_source s' = sink_fb_source snk
            \<and> (\<forall>x. a = SetVideoSinkSSRC x \<longrightarrow> video_sink_ssrc s' = x)
            \<and> (\<forall>x. a = SetAudioSinkSSRC x \<longrightarrow> audio_sink_ssrc s' = x)"
    using snk snk_guard by blast
  obtain r2 s2 where src:
    "source_call c src = Inr (r2, s2, if source_test c then [source_access c]
                                       else [Acquire, source_access c, Release])"
    "\<not> monitor_mutex s2"
    "audio_sink s2 \<noteq> audio_sink src \<longrightarrow> (\<exists>p. c = SetAudioSink p)"
    "video_sink s2 \<noteq> video_sink src \<longrightarrow> (\<exists>p. c = SetVideoSink p)"
    "\<forall>p. c = SetAudioSink p \<longrightarrow> audio_sink s2 = p"
    "\<forall>p. c = SetVideoSink p \<longrightarrow> video_sink s2 = p"
    "source_fb_sink s2 = source_fb_sink src"
    using source_call_discipline [OF assms(2,3)] by blast
  let ?tr = "if source_test c then [source_access c] else [Acquire, source_access c, Release]"
  have src_guard: "guarded False ?tr \<longleftrightarrow> \<not> source_test c"
    using guarded_source_access [of c] by simp
  have audio: "audio_sink s2 \<noteq> audio_sink src
      \<longrightarrow> (\<exists>p. c = SetAudioSink p) \<and> ?tr = [Acquire, Wr Audio_sink, Release]"
    using src(3) by auto
  have video: "video_sink s2 \<noteq> video_sink src
      \<longrightarrow> (\<exists>p. c = SetVideoSink p) \<and> ?tr = [Acquire, Wr Video_sink, Release]"
    using src(4) by auto
  have part2: "\<exists>r s' tr. source_call c src = Inr (r, s', tr)
            \<and> tr = (if source_test c then [source_access c]
                     else [Acquire, source_access c, Release])
            \<and> (guarded False tr \<longleftrightarrow> \<not> source_test c)
            \<and> \<not> monitor_mutex s'
            \<and> (audio_sink s' \<noteq> audio_sink src
                 \<longrightarrow> (\<exists>p. c = SetAudioSink p) \<and> tr = [Acquire, Wr Audio_sink, Release])
            \<and> (video_sink s' \<noteq> video_sink src
                 \<longrightarrow> (\<exists>p. c = SetVideoSink p) \<and> tr = [Acquire, Wr Video_sink, Release])
            \<and> (\<forall>p. c = SetAudioSink p \<longrightarrow> audio_sink s' = p)
            \<and> (\<forall>p. c = SetVideoSink p \<longrightarrow> video_sink s' = p)
            \<and> source_fb_sink s' = source_fb_sink src"
    using src(1,2,5,6,7) src_guard audio video by blast
  have fb: "setFeedbackSink sink fs = Inr ((), fs\<lparr>fb_sink := sink\<rparr>, [Wr Fb_sink])"
    by (simp add: setFeedbackSink_def wr_def)
  have bare: "\<not> guarded False [Wr Fb_sink]"
    by simp
  from part1 part2 fb bare show ?thesis by blast
qed

theorem accessors_locking_discipline_witness:
  "\<not> monitor_mutex MediaSink_ctor
   \<and> \<not> monitor_mutex (MediaSource_ctor\<lparr>video_source_ssrc_list := []\<rparr>)
   \<and> \<not> source_slot0 (SetAudioSink (Some 3))
   \<and> \<not> sink_test (SetVideoSinkSSRC 7)
   \<and> \<not> source_test (SetAudioSink (Some 3))
   \<and> (\<exists>r s'. sink_call (SetVideoSinkSSRC 7) MediaSink_ctor
                = Inr (r, s', [Acquire, Wr Video_sink_ssrc, Release])
          \<and> video_sink_ssrc s' = 7 \<and> \<not> monitor_mutex s')
   \<and> (\<exists>r s'. source_call (SetAudioSink (Some 3))
                  (MediaSource_ctor\<lparr>video_source_ssrc_list := []\<rparr>)
                = Inr (r, s', [Acquire, Wr Audio_sink, Release])
          \<and> audio_sink s' = Some 3
          \<and> audio_sink s' \<noteq> audio_sink (MediaSource_ctor\<lparr>video_source_ssrc_list := []\<rparr>)
          \<and> \<not> monitor_mutex s')
   \<and> guarded False [Acquire, Wr Audio_sink, Release]
   \<and> guarded False [Acquire, Wr Video_sink_ssrc, Release]
   \<and> setFeedbackSink (Some 4) FeedbackSource_ctor
       = Inr ((), FeedbackSource_ctor\<lparr>fb_sink := Some 4\<rparr>, [Wr Fb_sink])"
proof -
  let ?src = "MediaSource_ctor\<lparr>video_source_ssrc_list := []\<rparr>"
  have h1: "\<not> monitor_mutex MediaSink_ctor"
    by (simp add: MediaSink_ctor_def)
  have h2: "\<not> monitor_mutex ?src"
    by (simp add: MediaSource_ctor_def)
  have slot: "\<not> source_slot0 (SetAudioSink (Some 3))" by simp
  then have h3: "video_source_ssrc_list ?src \<noteq> [] \<or> \<not> source_slot0 (SetAudioSink (Some 3))"
    by simp
  have t1: "\<not> sink_test (SetVideoSinkSSRC 7)" by simp
  have t2: "\<not> source_test (SetAudioSink (Some 3))" by simp
  have none: "audio_sink ?src = None"
    by (simp add: MediaSource_ctor_def)
  from accessors_locking_discipline [OF h1 h2 h3,
      of "SetVideoSinkSSRC 7" "Some 4" FeedbackSource_ctor]
  have "(\<exists>r s'. sink_call (SetVideoSinkSSRC 7) MediaSink_ctor
                = Inr (r, s', [Acquire, Wr Video_sink_ssrc, Release])
          \<and> video_sink_ssrc s' = 7 \<and> \<not> monitor_mutex s')
   \<and> (\<exists>r s'. source_call (SetAudioSink (Some 3)) ?src
                = Inr (r, s', [Acquire, Wr Audio_sink, Release])
          \<and> audio_sink s' = Some 3 \<and> \<not> monitor_mutex s')
   \<and> setFeedbackSink (Some 4) FeedbackSource_ctor
       = Inr ((), FeedbackSource_ctor\<lparr>fb_sink := Some 4\<rparr>, [Wr Fb_sink])"
    by (simp only: sink_test.simps source_test.simps sink_access.simps source_access.simps
        if_False) blast
  with h1 h2 slot t1 t2 none show ?thesis by auto
qed

end
